theory Spec2Isabelle
  imports Main
begin

section \<open>pyrobud: command descriptors and the invocation context\<close>

text \<open>
  A shallow embedding of \<^verbatim>\<open>pyrobud/command.py\<close>: the three metadata decorators,
  the \<^verbatim>\<open>Command\<close> descriptor and the per-message \<^verbatim>\<open>Context\<close> with its lazy
  \<^verbatim>\<open>args\<close> attribute and its \<^verbatim>\<open>respond\<close> / \<^verbatim>\<open>respond_multi\<close> protocol.

  Python raises are values: a function that can raise returns \<open>error + 'a\<close> with
  \<open>Inl\<close> for the exception. Mutation of \<^verbatim>\<open>self\<close> is state passing: the function
  returns the updated Context. A coroutine is modelled as run to completion by its
  \<^verbatim>\<open>await\<close>; interleaving of several tasks on one Context is outside the model.
\<close>

subsection \<open>Python values the module works on\<close>

text \<open>
  The exceptions that can leave the module. \<open>IndexError\<close>, \<open>TypeError\<close> and
  \<open>AttributeError\<close> are Python's built-ins (the module defines no exception class of
  its own); \<open>Raised e\<close> is an exception \<open>e\<close> that the external \<^verbatim>\<open>Bot.respond\<close>
  raised and that \<^verbatim>\<open>Context.respond\<close> lets through.
\<close>

datatype 'e error = IndexError | TypeError | AttributeError string | Raised 'e

text \<open>
  \<^verbatim>\<open>tg.custom.Message\<close> belongs to telethon. The module reads two properties of it,
  \<^verbatim>\<open>text\<close> (with markup) and \<^verbatim>\<open>raw_text\<close> (plain); \<open>msg_id\<close> tells two messages
  with the same content apart. telethon's objects define neither \<^verbatim>\<open>__bool__\<close> nor
  \<^verbatim>\<open>__len__\<close>, so a Message is always truthy: \<^verbatim>\<open>m or d\<close> is \<open>m\<close> unless \<open>m\<close> is
  \<^verbatim>\<open>None\<close>, and \<^verbatim>\<open>if m:\<close> tests \<open>m\<close> against \<^verbatim>\<open>None\<close>. A \<open>char\<close> of a \<open>string\<close>
  stands for one code point of a Python \<^verbatim>\<open>str\<close>.
\<close>

record Message =
  msg_id :: int
  msg_text :: string
  msg_raw_text :: string

text \<open>
  A list object: its identity and its items. \<^verbatim>\<open>xs[1:]\<close> makes a new list object, and
  whether two reads of \<^verbatim>\<open>ctx.args\<close> give the same object is a question of identity,
  so the interpreter's allocator is part of the state: \<open>new_seq k xs\<close> makes the object
  with identity \<open>k\<close> and returns the next free identity. Nothing in the module writes
  into a list, so the items travel with the object.
\<close>

record seqobj =
  oid :: nat
  items :: "string list"

definition new_seq :: "nat \<Rightarrow> string list \<Rightarrow> seqobj \<times> nat" where
  "new_seq k xs = (\<lparr>oid = k, items = xs\<rparr>, Suc k)"

text \<open>
  Python's \<^verbatim>\<open>xs[n:]\<close> on a list or a str: a negative \<open>n\<close> counts from the end and
  is clamped at the start, a large \<open>n\<close> gives the empty sequence, nothing raises.
\<close>

definition slice_from :: "int \<Rightarrow> 'a list \<Rightarrow> 'a list" where
  "slice_from n xs =
     (if 0 \<le> n then drop (nat n) xs else drop (length xs - nat (- n)) xs)"

text \<open>\<^verbatim>\<open>xs[0]\<close>: raises IndexError on the empty sequence.\<close>

definition index0 :: "'a list \<Rightarrow> 'e error + 'a" where
  "index0 xs = (case xs of [] \<Rightarrow> Inl IndexError | x # _ \<Rightarrow> Inr x)"

subsection \<open>Context\<close>

text \<open>
  The instance attributes of a Context. \<open>args\<close> is \<open>None\<close> while the instance has no
  attribute of that name (the class only annotates it) and \<open>Some a\<close> once
  \<^verbatim>\<open>_get_args\<close> has stored the list object \<open>a\<close>. \<open>bot_ctx\<close> is the source's
  \<^verbatim>\<open>bot\<close>, a handle of the running bot.
\<close>

record 'b Context =
  bot_ctx :: 'b
  msg :: Message
  segments :: seqobj
  cmd_len :: int
  invoker :: string
  response :: "Message option"
  response_mode :: "string option"
  input :: string
  parsed_input :: string
  args :: "seqobj option"

text \<open>
  \<^verbatim>\<open>Context.__init__\<close>. The only statement that can raise is
  \<^verbatim>\<open>self.invoker = segments[0]\<close>; the exception leaves the constructor, so the
  caller gets no Context.
\<close>

definition Context_init ::
  "'b \<Rightarrow> Message \<Rightarrow> seqobj \<Rightarrow> int \<Rightarrow> 'e error + 'b Context" where
  "Context_init b m segs n =
     (case index0 (items segs) of
        Inl e \<Rightarrow> Inl e
      | Inr s0 \<Rightarrow>
          Inr \<lparr>bot_ctx = b, msg = m, segments = segs, cmd_len = n, invoker = s0,
               response = None, response_mode = None,
               input = slice_from n (msg_text m),
               parsed_input = slice_from n (msg_raw_text m),
               args = None\<rparr>)"

text \<open>
  \<^verbatim>\<open>Context._get_args\<close>: slices a new list object off \<^verbatim>\<open>segments\<close>, stores it
  as the instance attribute \<^verbatim>\<open>args\<close> and returns it. The state is the Context and
  the allocator.
\<close>

definition Context_get_args :: "nat \<Rightarrow> 'b Context \<Rightarrow> seqobj \<times> 'b Context \<times> nat" where
  "Context_get_args k self =
     (case new_seq k (slice_from 1 (items (segments self))) of
        (a, k') \<Rightarrow> (a, self\<lparr>args := Some a\<rparr>, k'))"

text \<open>
  \<^verbatim>\<open>Context.__getattr__\<close>. Python calls it only for a name that the normal lookup
  (instance attributes, then the class) does not find. \<^verbatim>\<open>type(self).__name__\<close> is
  \<^verbatim>\<open>Context\<close> for an instance of the class itself; \<open>CHR 0x27\<close> is the single quote.
\<close>

definition no_attribute :: "string \<Rightarrow> string" where
  "no_attribute name =
     [CHR 0x27] @ ''Context'' @ [CHR 0x27] @ '' object has no attribute '' @
     [CHR 0x27] @ name @ [CHR 0x27]"

definition Context_getattr ::
  "nat \<Rightarrow> 'b Context \<Rightarrow> string \<Rightarrow> ('e error + seqobj) \<times> 'b Context \<times> nat" where
  "Context_getattr k self name =
     (if name = ''args''
      then (case Context_get_args k self of (a, self', k') \<Rightarrow> (Inr a, self', k'))
      else (Inl (AttributeError (no_attribute name)), self, k))"

text \<open>
  The expression \<^verbatim>\<open>ctx.args\<close>: the instance attribute when it is set, else the call
  of \<^verbatim>\<open>__getattr__\<close> (the class has no attribute \<^verbatim>\<open>args\<close>, only an annotation).
\<close>

definition read_args ::
  "nat \<Rightarrow> 'b Context \<Rightarrow> ('e error + seqobj) \<times> 'b Context \<times> nat" where
  "read_args k self =
     (case args self of
        Some a \<Rightarrow> (Inr a, self, k)
      | None \<Rightarrow> Context_getattr k self ''args'')"

text \<open>\<open>j\<close> reads of \<^verbatim>\<open>ctx.args\<close> one after the other: what each returned, and the state left.\<close>

fun read_args_times ::
  "nat \<Rightarrow> nat \<Rightarrow> 'b Context \<Rightarrow> ('e error + seqobj) list \<times> 'b Context \<times> nat" where
  "read_args_times 0 k self = ([], self, k)"
| "read_args_times (Suc j) k self =
     (case read_args k self of
        (r, self', k') \<Rightarrow>
          (case read_args_times j k' self' of
             (rs, self'', k'') \<Rightarrow> (r # rs, self'', k'')))"

subsection \<open>The response protocol\<close>

text \<open>
  What one call of the external \<^verbatim>\<open>Bot.respond\<close> receives: the target message (its
  first positional argument), the text, and the keywords \<^verbatim>\<open>mode\<close>, \<^verbatim>\<open>redact\<close>,
  \<^verbatim>\<open>response\<close> and the caller's extra keywords.
\<close>

record 'x respond_call =
  target :: Message
  text_arg :: "string option"
  mode_arg :: "string option"
  redact_arg :: "bool option"
  response_arg :: "Message option"
  extra_args :: "string \<rightharpoonup> 'x"

text \<open>
  \<^verbatim>\<open>Context.respond\<close>, awaited. \<^verbatim>\<open>Bot.respond\<close> is not part of this module: it
  is the parameter \<open>bot_respond\<close>, which takes the bot, the world \<open>w\<close> it acts on
  (the chat) and the call, and gives back the message it sent or edited, or the
  exception it raised, with the new world.

  The call site passes \<^verbatim>\<open>response=...\<close> and \<^verbatim>\<open>**kwargs\<close> together, so a caller's
  extra keyword named \<^verbatim>\<open>response\<close> is a duplicate keyword: Python raises TypeError
  before \<^verbatim>\<open>Bot.respond\<close> runs. When \<^verbatim>\<open>Bot.respond\<close> raises, the assignments to
  \<^verbatim>\<open>self.response\<close> and \<^verbatim>\<open>self.response_mode\<close> are not reached.
\<close>

definition Context_respond ::
  "('b \<Rightarrow> 'w \<Rightarrow> 'x respond_call \<Rightarrow> ('e + Message) \<times> 'w) \<Rightarrow> 'w \<Rightarrow> 'b Context \<Rightarrow>
   string option \<Rightarrow> string option \<Rightarrow> bool option \<Rightarrow> Message option \<Rightarrow> bool \<Rightarrow>
   (string \<rightharpoonup> 'x) \<Rightarrow> ('e error + Message) \<times> 'b Context \<times> 'w" where
  "Context_respond bot_respond w self text mode redact m reuse_response kwargs =
     (if kwargs ''response'' \<noteq> None then (Inl TypeError, self, w)
      else
        case bot_respond (bot_ctx self) w
               \<lparr>target = (case m of Some m' \<Rightarrow> m' | None \<Rightarrow> msg self),
                text_arg = text,
                mode_arg = mode,
                redact_arg = redact,
                response_arg =
                  (if reuse_response \<and> mode = response_mode self
                   then response self else None),
                extra_args = kwargs\<rparr> of
          (Inl e, w') \<Rightarrow> (Inl (Raised e), self, w')
        | (Inr r, w') \<Rightarrow> (Inr r, self\<lparr>response := Some r, response_mode := mode\<rparr>, w'))"

text \<open>
  The keyword dictionary of a call \<^verbatim>\<open>respond(*args, **kwargs)\<close>, by key: \<open>None\<close>
  when the key is not in the dictionary, \<open>Some v\<close> when it is there with value \<open>v\<close>
  (\<open>Some None\<close> is an explicit \<^verbatim>\<open>mode=None\<close>). \<open>kw_rest\<close> holds the other keys.
\<close>

record 'x kwargs =
  kw_text :: "string option option"
  kw_mode :: "string option option"
  kw_redact :: "bool option option"
  kw_msg :: "Message option option"
  kw_reuse_response :: "bool option"
  kw_rest :: "string \<rightharpoonup> 'x"

text \<open>
  Binding \<^verbatim>\<open>self.respond(*args, **kwargs)\<close> to the signature
  \<^verbatim>\<open>respond(self, text=None, *, mode=None, redact=None, msg=None, reuse_response=False, **kwargs)\<close>:
  \<^verbatim>\<open>text\<close> is the only positional parameter, so a second positional argument, or
  \<^verbatim>\<open>text\<close> given both ways, is a TypeError; a missing keyword takes its default.
\<close>

definition call_respond ::
  "('b \<Rightarrow> 'w \<Rightarrow> 'x respond_call \<Rightarrow> ('e + Message) \<times> 'w) \<Rightarrow> 'w \<Rightarrow> 'b Context \<Rightarrow>
   string option list \<Rightarrow> 'x kwargs \<Rightarrow> ('e error + Message) \<times> 'b Context \<times> 'w" where
  "call_respond bot_respond w self pos kw =
     (if 1 < length pos \<or> (pos \<noteq> [] \<and> kw_text kw \<noteq> None) then (Inl TypeError, self, w)
      else
        Context_respond bot_respond w self
          (case pos of a # _ \<Rightarrow> a | [] \<Rightarrow> (case kw_text kw of Some t \<Rightarrow> t | None \<Rightarrow> None))
          (case kw_mode kw of Some v \<Rightarrow> v | None \<Rightarrow> None)
          (case kw_redact kw of Some v \<Rightarrow> v | None \<Rightarrow> None)
          (case kw_msg kw of Some v \<Rightarrow> v | None \<Rightarrow> None)
          (case kw_reuse_response kw of Some v \<Rightarrow> v | None \<Rightarrow> False)
          (kw_rest kw))"

text \<open>\<^verbatim>\<open>kwargs.setdefault(key, v)\<close> for the three keys the module sets.\<close>

definition setdefault_mode :: "string option \<Rightarrow> 'x kwargs \<Rightarrow> 'x kwargs" where
  "setdefault_mode v kw = (case kw_mode kw of None \<Rightarrow> kw\<lparr>kw_mode := Some v\<rparr> | Some _ \<Rightarrow> kw)"

definition setdefault_msg :: "Message option \<Rightarrow> 'x kwargs \<Rightarrow> 'x kwargs" where
  "setdefault_msg v kw = (case kw_msg kw of None \<Rightarrow> kw\<lparr>kw_msg := Some v\<rparr> | Some _ \<Rightarrow> kw)"

definition setdefault_reuse_response :: "bool \<Rightarrow> 'x kwargs \<Rightarrow> 'x kwargs" where
  "setdefault_reuse_response v kw =
     (case kw_reuse_response kw of None \<Rightarrow> kw\<lparr>kw_reuse_response := Some v\<rparr> | Some _ \<Rightarrow> kw)"

text \<open>\<^verbatim>\<open>Context.respond_multi\<close>, awaited.\<close>

definition Context_respond_multi ::
  "('b \<Rightarrow> 'w \<Rightarrow> 'x respond_call \<Rightarrow> ('e + Message) \<times> 'w) \<Rightarrow> 'w \<Rightarrow> 'b Context \<Rightarrow>
   string option list \<Rightarrow> 'x kwargs \<Rightarrow> ('e error + Message) \<times> 'b Context \<times> 'w" where
  "Context_respond_multi bot_respond w self pos kw =
     call_respond bot_respond w self pos
       (case response self of
          Some r \<Rightarrow>
            setdefault_reuse_response False
              (setdefault_msg (Some r) (setdefault_mode (Some ''reply'') kw))
        | None \<Rightarrow> kw)"

subsection \<open>Function objects and the metadata decorators\<close>

text \<open>
  A value stored in an attribute of a command function: \<^verbatim>\<open>None\<close>, a bool, a str, a
  list of str (the default \<^verbatim>\<open>[]\<close>) or a tuple of str (what \<^verbatim>\<open>*aliases\<close> binds).
\<close>

datatype attrval = ANone | ABool bool | AStr string | AList "string list" | ATuple "string list"

text \<open>
  An object that can stand where a command function is expected: \<open>obj_call\<close> is what
  calling it does (\<open>None\<close> for an object that is not callable) and \<open>obj_dict\<close> its
  attribute dictionary. The decorators write into the object they are given, so
  objects live in a heap, addressed by reference; \<^verbatim>\<open>func\<close> is a reference.
\<close>

record 'c pyobj =
  obj_call :: "'c option"
  obj_dict :: "string \<rightharpoonup> attrval"

type_synonym 'c heap = "nat \<Rightarrow> 'c pyobj"

text \<open>
  \<^verbatim>\<open>setattr(obj, name, v)\<close> on an object with an attribute dictionary (every function
  made by \<^verbatim>\<open>def\<close> has one), and \<^verbatim>\<open>getattr(obj, name, default)\<close> for a name that no
  class defines.
\<close>

definition setattr :: "'c heap \<Rightarrow> nat \<Rightarrow> string \<Rightarrow> attrval \<Rightarrow> 'c heap" where
  "setattr h r name v = h(r := (h r)\<lparr>obj_dict := (obj_dict (h r))(name \<mapsto> v)\<rparr>)"

definition getattr :: "'c heap \<Rightarrow> nat \<Rightarrow> string \<Rightarrow> attrval \<Rightarrow> attrval" where
  "getattr h r name d = (case obj_dict (h r) name of Some v \<Rightarrow> v | None \<Rightarrow> d)"

text \<open>
  The inner functions of \<^verbatim>\<open>desc\<close>, \<^verbatim>\<open>usage\<close> and \<^verbatim>\<open>alias\<close>, with the values they
  close over as leading arguments. Each returns the reference it was given.
\<close>

definition desc_decorator :: "string \<Rightarrow> 'c heap \<Rightarrow> nat \<Rightarrow> 'c heap \<times> nat" where
  "desc_decorator d h func = (setattr h func ''_cmd_description'' (AStr d), func)"

definition usage_decorator :: "string \<Rightarrow> bool \<Rightarrow> bool \<Rightarrow> 'c heap \<Rightarrow> nat \<Rightarrow> 'c heap \<times> nat" where
  "usage_decorator u optional reply h func =
     (setattr
        (setattr
           (setattr h func ''_cmd_usage'' (AStr u))
           func ''_cmd_usage_optional'' (ABool optional))
        func ''_cmd_usage_reply'' (ABool reply),
      func)"

definition alias_decorator :: "string list \<Rightarrow> 'c heap \<Rightarrow> nat \<Rightarrow> 'c heap \<times> nat" where
  "alias_decorator als h func = (setattr h func ''_cmd_aliases'' (ATuple als), func)"

text \<open>
  The three tags. \<^verbatim>\<open>usage\<close> has two optional parameters, each \<^verbatim>\<open>False\<close> when the
  caller leaves it out.
\<close>

definition desc_tag :: "string \<Rightarrow> 'c heap \<Rightarrow> nat \<Rightarrow> 'c heap \<times> nat" where
  "desc_tag d = desc_decorator d"

definition usage_tag :: "string \<Rightarrow> bool option \<Rightarrow> bool option \<Rightarrow> 'c heap \<Rightarrow> nat \<Rightarrow> 'c heap \<times> nat" where
  "usage_tag u optional reply =
     usage_decorator u
       (case optional of Some b \<Rightarrow> b | None \<Rightarrow> False)
       (case reply of Some b \<Rightarrow> b | None \<Rightarrow> False)"

definition alias_tag :: "string list \<Rightarrow> 'c heap \<Rightarrow> nat \<Rightarrow> 'c heap \<times> nat" where
  "alias_tag als = alias_decorator als"

text \<open>
  A stack of decorators over one \<^verbatim>\<open>def\<close>, written as the list of tag applications
  in the order they run; each is applied to what the one before returned.
\<close>

datatype tag = Desc string | Usage string "bool option" "bool option" | Alias "string list"

fun apply_tag :: "tag \<Rightarrow> 'c heap \<Rightarrow> nat \<Rightarrow> 'c heap \<times> nat" where
  "apply_tag (Desc d) h f = desc_tag d h f"
| "apply_tag (Usage u optional reply) h f = usage_tag u optional reply h f"
| "apply_tag (Alias als) h f = alias_tag als h f"

fun apply_tags :: "tag list \<Rightarrow> 'c heap \<Rightarrow> nat \<Rightarrow> 'c heap \<times> nat" where
  "apply_tags [] h f = (h, f)"
| "apply_tags (t # ts) h f = (case apply_tag t h f of (h', f') \<Rightarrow> apply_tags ts h' f')"

subsection \<open>Command\<close>

record 'm Command =
  name :: string
  desc :: attrval
  usage :: attrval
  usage_optional :: attrval
  usage_reply :: attrval
  aliases :: attrval
  module :: 'm
  func :: nat

text \<open>
  \<^verbatim>\<open>Command.__init__\<close>. It has no statement that raises and no test of
  \<^verbatim>\<open>func\<close>; the result is a sum so that its success can be stated.
\<close>

definition Command_init :: "'c heap \<Rightarrow> string \<Rightarrow> 'm \<Rightarrow> nat \<Rightarrow> 'e error + 'm Command" where
  "Command_init h nm md f =
     Inr \<lparr>name = nm,
          desc = getattr h f ''_cmd_description'' ANone,
          usage = getattr h f ''_cmd_usage'' ANone,
          usage_optional = getattr h f ''_cmd_usage_optional'' (ABool False),
          usage_reply = getattr h f ''_cmd_usage_reply'' (ABool False),
          aliases = getattr h f ''_cmd_aliases'' (AList []),
          module = md,
          func = f\<rparr>"

section \<open>Properties\<close>

subsection \<open>Construction of a Context\<close>

text \<open>
  C3, as the code has it. Constructing a Context from an empty \<^verbatim>\<open>segments\<close> fails:
  \<^verbatim>\<open>segments[0]\<close> raises Python's IndexError (the constructor has no test of its own
  and the module no exception class of its own), the exception leaves the
  constructor and no Context is returned, so no handler can be given one. From a
  non-empty \<^verbatim>\<open>segments\<close> the constructor returns a Context whose \<^verbatim>\<open>invoker\<close> is
  \<^verbatim>\<open>segments[0]\<close>.
\<close>

theorem Context_init_segments:
  "(items segs = [] \<longrightarrow> Context_init b m segs n = Inl IndexError) \<and>
   (items segs \<noteq> [] \<longrightarrow>
      (\<exists>c. Context_init b m segs n = Inr c \<and> invoker c = hd (items segs)))"
  by (cases "items segs") (simp_all add: Context_init_def index0_def)

theorem Context_init_segments_witness:
  "Context_init () \<lparr>msg_id = 1, msg_text = ''/echo hi'', msg_raw_text = ''/echo hi''\<rparr>
      \<lparr>oid = 0, items = []\<rparr> 6 = (Inl IndexError :: unit error + unit Context) \<and>
   (\<exists>c. Context_init () \<lparr>msg_id = 1, msg_text = ''/echo hi'', msg_raw_text = ''/echo hi''\<rparr>
      \<lparr>oid = 0, items = [''/echo'', ''hi'']\<rparr> 6 = (Inr c :: unit error + unit Context) \<and>
      invoker c = ''/echo'')"
  using Context_init_segments [of "\<lparr>oid = 0, items = []\<rparr>" "()"
          "\<lparr>msg_id = 1, msg_text = ''/echo hi'', msg_raw_text = ''/echo hi''\<rparr>" 6]
        Context_init_segments [of "\<lparr>oid = 0, items = [''/echo'', ''hi'']\<rparr>" "()"
          "\<lparr>msg_id = 1, msg_text = ''/echo hi'', msg_raw_text = ''/echo hi''\<rparr>" 6]
  by simp

text \<open>
  The empty command line: the exception that comes out is the built-in IndexError of
  the indexing, not an error that the module raises for an invalid argument.
\<close>

theorem Context_init_empty_IndexError:
  "Context_init () \<lparr>msg_id = 1, msg_text = ''/ping'', msg_raw_text = ''/ping''\<rparr>
      \<lparr>oid = 0, items = []\<rparr> 5 = (Inl IndexError :: unit error + unit Context)"
  by (simp add: Context_init_def index0_def)

text \<open>
  C6. A constructed Context has \<^verbatim>\<open>input\<close> equal to the message's formatted text
  sliced from \<^verbatim>\<open>cmd_len\<close> and \<^verbatim>\<open>parsed_input\<close> equal to its plain text sliced from
  \<^verbatim>\<open>cmd_len\<close>; for \<open>0 \<le> cmd_len\<close> the slice drops the first \<^verbatim>\<open>cmd_len\<close> characters.
  Both are fields of the Context the constructor returns: no later call computes them.
\<close>

theorem Context_init_input:
  "Context_init b m segs n = Inr c \<Longrightarrow>
     input c = slice_from n (msg_text m) \<and>
     parsed_input c = slice_from n (msg_raw_text m) \<and>
     (0 \<le> n \<longrightarrow> input c = drop (nat n) (msg_text m) \<and>
                parsed_input c = drop (nat n) (msg_raw_text m))"
  by (auto simp: Context_init_def index0_def slice_from_def split: list.splits)

text \<open>The specification's example: \<^verbatim>\<open>/echo **hi**\<close> with \<^verbatim>\<open>cmd_len = 6\<close>.\<close>

theorem Context_init_input_witness:
  "Context_init () \<lparr>msg_id = 1, msg_text = ''/echo **hi**'', msg_raw_text = ''/echo hi''\<rparr>
      \<lparr>oid = 0, items = [''/echo'', ''**hi**'']\<rparr> 6 =
     (Inr \<lparr>bot_ctx = (),
           msg = \<lparr>msg_id = 1, msg_text = ''/echo **hi**'', msg_raw_text = ''/echo hi''\<rparr>,
           segments = \<lparr>oid = 0, items = [''/echo'', ''**hi**'']\<rparr>, cmd_len = 6,
           invoker = ''/echo'', response = None, response_mode = None,
           input = ''**hi**'', parsed_input = ''hi'', args = None\<rparr>
        :: unit error + unit Context) \<and>
   input \<lparr>bot_ctx = (),
           msg = \<lparr>msg_id = 1, msg_text = ''/echo **hi**'', msg_raw_text = ''/echo hi''\<rparr>,
           segments = \<lparr>oid = 0, items = [''/echo'', ''**hi**'']\<rparr>, cmd_len = 6,
           invoker = ''/echo'', response = None, response_mode = None,
           input = ''**hi**'', parsed_input = ''hi'', args = None\<rparr> =
     drop 6 ''/echo **hi**''"
proof -
  let ?m = "\<lparr>msg_id = 1, msg_text = ''/echo **hi**'', msg_raw_text = ''/echo hi''\<rparr>"
  let ?s = "\<lparr>oid = 0, items = [''/echo'', ''**hi**'']\<rparr>"
  let ?c = "\<lparr>bot_ctx = (), msg = ?m, segments = ?s, cmd_len = 6,
           invoker = ''/echo'', response = None, response_mode = None,
           input = ''**hi**'', parsed_input = ''hi'', args = None\<rparr>"
  have init: "Context_init () ?m ?s 6 = (Inr ?c :: unit error + unit Context)"
    by (simp add: Context_init_def index0_def slice_from_def)
  from Context_init_input [OF init] have "input ?c = drop (nat 6) (msg_text ?m)"
    by simp
  with init show ?thesis by simp
qed

subsection \<open>The lazy attribute\<close>

lemma read_args_first:
  "args c = None \<Longrightarrow>
   read_args k c =
     (Inr \<lparr>oid = k, items = slice_from 1 (items (segments c))\<rparr>,
      c\<lparr>args := Some \<lparr>oid = k, items = slice_from 1 (items (segments c))\<rparr>\<rparr>,
      Suc k)"
  by (simp add: read_args_def Context_getattr_def Context_get_args_def new_seq_def)

lemma read_args_cached: "args c = Some a \<Longrightarrow> read_args k c = (Inr a, c, k)"
  by (simp add: read_args_def)

lemma read_args_times_cached:
  "args c = Some a \<Longrightarrow> read_args_times j k c = (replicate j (Inr a), c, k)"
  by (induction j) (simp_all add: read_args_cached)

text \<open>
  C5. On a Context constructed from \<^verbatim>\<open>segments = [s0, s1, ..., sn]\<close> the attribute
  \<^verbatim>\<open>args\<close> is not set by the constructor. The first read of \<^verbatim>\<open>ctx.args\<close> makes one new
  list object \<open>a\<close> with the items \<^verbatim>\<open>[s1, ..., sn]\<close> and stores it; a second read, and
  any number of reads in a row, return that same object \<open>a\<close> and leave the Context and
  the allocator as the first read left them, so nothing is computed again.
\<close>

theorem args_lazy_cached:
  assumes "Context_init b m segs n = Inr c" and "items segs = s0 # rest"
  shows "args c = None \<and>
         (\<exists>a. items a = rest \<and> oid a = k \<and>
              read_args k c = (Inr a, c\<lparr>args := Some a\<rparr>, Suc k) \<and>
              read_args (Suc k) (c\<lparr>args := Some a\<rparr>) = (Inr a, c\<lparr>args := Some a\<rparr>, Suc k) \<and>
              read_args_times (Suc j) k c = (replicate (Suc j) (Inr a), c\<lparr>args := Some a\<rparr>, Suc k))"
proof -
  from assms have c: "args c = None" "items (segments c) = s0 # rest"
    by (auto simp: Context_init_def index0_def)
  define a where "a = \<lparr>oid = k, items = rest\<rparr>"
  from c have first: "read_args k c = (Inr a, c\<lparr>args := Some a\<rparr>, Suc k)"
    by (simp add: read_args_first a_def slice_from_def)
  have again: "read_args k' (c\<lparr>args := Some a\<rparr>) = (Inr a, c\<lparr>args := Some a\<rparr>, k')" for k'
    by (simp add: read_args_cached)
  have many: "read_args_times (Suc j) k c = (replicate (Suc j) (Inr a), c\<lparr>args := Some a\<rparr>, Suc k)"
    by (simp add: first read_args_times_cached)
  show ?thesis
    using c(1) first again many by (intro conjI exI [of _ a]) (simp_all add: a_def)
qed

theorem args_lazy_cached_witness:
  "read_args_times (Suc 2) 7
       \<lparr>bot_ctx = (), msg = \<lparr>msg_id = 1, msg_text = ''/x a b'', msg_raw_text = ''/x a b''\<rparr>,
        segments = \<lparr>oid = 0, items = [''/x'', ''a'', ''b'']\<rparr>, cmd_len = 3, invoker = ''/x'',
        response = None, response_mode = None, input = ''a b'', parsed_input = ''a b'',
        args = None\<rparr>
     = ([Inr \<lparr>oid = 7, items = [''a'', ''b'']\<rparr>,
         Inr \<lparr>oid = 7, items = [''a'', ''b'']\<rparr>,
         Inr \<lparr>oid = 7, items = [''a'', ''b'']\<rparr> :: unit error + seqobj],
        \<lparr>bot_ctx = (), msg = \<lparr>msg_id = 1, msg_text = ''/x a b'', msg_raw_text = ''/x a b''\<rparr>,
        segments = \<lparr>oid = 0, items = [''/x'', ''a'', ''b'']\<rparr>, cmd_len = 3, invoker = ''/x'',
        response = None, response_mode = None, input = ''a b'', parsed_input = ''a b'',
        args = Some \<lparr>oid = 7, items = [''a'', ''b'']\<rparr>\<rparr>, 8)"
proof -
  let ?m = "\<lparr>msg_id = 1, msg_text = ''/x a b'', msg_raw_text = ''/x a b''\<rparr>"
  let ?s = "\<lparr>oid = 0, items = [''/x'', ''a'', ''b'']\<rparr>"
  let ?c = "\<lparr>bot_ctx = (), msg = ?m, segments = ?s, cmd_len = 3, invoker = ''/x'',
        response = None, response_mode = None, input = ''a b'', parsed_input = ''a b'',
        args = None\<rparr>"
  have init: "Context_init () ?m ?s 3 = (Inr ?c :: unit error + unit Context)"
    by (simp add: Context_init_def index0_def slice_from_def)
  have its: "items ?s = ''/x'' # [''a'', ''b'']" by simp
  obtain a where a: "items a = [''a'', ''b'']" "oid a = 7"
    and r: "read_args_times (Suc 2) 7 ?c =
              (replicate (Suc 2) (Inr a :: unit error + seqobj), ?c\<lparr>args := Some a\<rparr>, Suc 7)"
    using args_lazy_cached [OF init its, of 7 2] by blast
  from a have "a = \<lparr>oid = 7, items = [''a'', ''b'']\<rparr>" by (cases a) simp
  with r show ?thesis
    by (simp del: read_args_times.simps add: eval_nat_numeral)
qed

text \<open>
  C7. \<^verbatim>\<open>__getattr__\<close>, which Python calls for every attribute name that is neither
  an attribute of the instance nor of its class, raises AttributeError for every name
  but \<^verbatim>\<open>args\<close>: it returns no value, \<^verbatim>\<open>None\<close> or other, and changes nothing.
\<close>

theorem getattr_unknown_raises:
  "nm \<noteq> ''args'' \<Longrightarrow>
   Context_getattr k c nm = (Inl (AttributeError (no_attribute nm)), c, k)"
  by (simp add: Context_getattr_def)

theorem getattr_unknown_raises_witness:
  "''nonexistent_field'' \<noteq> ''args'' \<and>
   Context_getattr 0
     \<lparr>bot_ctx = (), msg = \<lparr>msg_id = 1, msg_text = ''/x a'', msg_raw_text = ''/x a''\<rparr>,
      segments = \<lparr>oid = 0, items = [''/x'', ''a'']\<rparr>, cmd_len = 3, invoker = ''/x'',
      response = None, response_mode = None, input = ''a'', parsed_input = ''a'',
      args = None\<rparr>
     ''nonexistent_field'' =
     (Inl (AttributeError
        ([CHR 0x27] @ ''Context'' @ [CHR 0x27] @ '' object has no attribute '' @
         [CHR 0x27] @ ''nonexistent_field'' @ [CHR 0x27])) :: unit error + seqobj,
      \<lparr>bot_ctx = (), msg = \<lparr>msg_id = 1, msg_text = ''/x a'', msg_raw_text = ''/x a''\<rparr>,
      segments = \<lparr>oid = 0, items = [''/x'', ''a'']\<rparr>, cmd_len = 3, invoker = ''/x'',
      response = None, response_mode = None, input = ''a'', parsed_input = ''a'',
      args = None\<rparr>, 0)"
  using getattr_unknown_raises [of "''nonexistent_field''" 0
     "\<lparr>bot_ctx = (), msg = \<lparr>msg_id = 1, msg_text = ''/x a'', msg_raw_text = ''/x a''\<rparr>,
      segments = \<lparr>oid = 0, items = [''/x'', ''a'']\<rparr>, cmd_len = 3, invoker = ''/x'',
      response = None, response_mode = None, input = ''a'', parsed_input = ''a'',
      args = None\<rparr>"]
  by (simp add: no_attribute_def)

subsection \<open>respond\<close>

text \<open>
  C1. For every Context and every call of \<^verbatim>\<open>respond\<close>: the \<^verbatim>\<open>response\<close> argument
  forwarded to \<^verbatim>\<open>Bot.respond\<close> is the stored \<^verbatim>\<open>response\<close> when \<^verbatim>\<open>reuse_response\<close>
  is true and the requested mode equals the stored \<^verbatim>\<open>response_mode\<close>, and \<^verbatim>\<open>None\<close>
  otherwise. When \<^verbatim>\<open>Bot.respond\<close> returns \<open>r\<close>, the caller gets \<open>r\<close>, and the Context
  is the old one with \<^verbatim>\<open>response\<close> set to \<open>r\<close> and \<^verbatim>\<open>response_mode\<close> to the requested
  mode, whatever \<^verbatim>\<open>reuse_response\<close> was; no other field changes. The one call that
  forwards nothing is the call whose extra keywords repeat \<^verbatim>\<open>response\<close>: it raises
  TypeError before \<^verbatim>\<open>Bot.respond\<close> runs and leaves the Context and the world alone.
\<close>

theorem respond_forwards_and_records:
  "(kwargs ''response'' = None \<longrightarrow>
      Context_respond B w c txt mode redact m reuse kwargs =
        (case B (bot_ctx c) w
                \<lparr>target = (case m of Some m' \<Rightarrow> m' | None \<Rightarrow> msg c),
                 text_arg = txt, mode_arg = mode, redact_arg = redact,
                 response_arg =
                   (if reuse \<and> mode = response_mode c then response c else None),
                 extra_args = kwargs\<rparr> of
           (Inl e, w') \<Rightarrow> (Inl (Raised e), c, w')
         | (Inr r, w') \<Rightarrow> (Inr r, c\<lparr>response := Some r, response_mode := mode\<rparr>, w'))) \<and>
   (kwargs ''response'' \<noteq> None \<longrightarrow>
      Context_respond B w c txt mode redact m reuse kwargs = (Inl TypeError, c, w))"
  by (simp add: Context_respond_def)

text \<open>
  A Context that answered \<open>A\<close> in mode \<^verbatim>\<open>reply\<close>, and a \<^verbatim>\<open>Bot.respond\<close> that logs
  each call it receives in the world and returns the message \<open>B\<close>. With
  \<^verbatim>\<open>reuse_response=True\<close>, mode \<^verbatim>\<open>reply\<close> forwards \<open>A\<close> and mode \<^verbatim>\<open>edit\<close> forwards
  \<^verbatim>\<open>None\<close>; both store \<open>B\<close> and the requested mode. With an extra keyword
  \<^verbatim>\<open>response\<close> the log stays empty.
\<close>

theorem respond_forwards_and_records_witness:
  "Context_respond
     (\<lambda>b w call. (Inr \<lparr>msg_id = 3, msg_text = ''B'', msg_raw_text = ''B''\<rparr>, w @ [call]))
     []
     \<lparr>bot_ctx = (), msg = \<lparr>msg_id = 1, msg_text = ''/x a'', msg_raw_text = ''/x a''\<rparr>,
      segments = \<lparr>oid = 0, items = [''/x'', ''a'']\<rparr>, cmd_len = 3, invoker = ''/x'',
      response = Some \<lparr>msg_id = 2, msg_text = ''A'', msg_raw_text = ''A''\<rparr>,
      response_mode = Some ''reply'', input = ''a'', parsed_input = ''a'', args = None\<rparr>
     (Some ''B'') (Some ''reply'') None None True Map.empty
   = (Inr \<lparr>msg_id = 3, msg_text = ''B'', msg_raw_text = ''B''\<rparr> :: unit error + Message,
      \<lparr>bot_ctx = (), msg = \<lparr>msg_id = 1, msg_text = ''/x a'', msg_raw_text = ''/x a''\<rparr>,
       segments = \<lparr>oid = 0, items = [''/x'', ''a'']\<rparr>, cmd_len = 3, invoker = ''/x'',
       response = Some \<lparr>msg_id = 3, msg_text = ''B'', msg_raw_text = ''B''\<rparr>,
       response_mode = Some ''reply'', input = ''a'', parsed_input = ''a'', args = None\<rparr>,
      [\<lparr>target = \<lparr>msg_id = 1, msg_text = ''/x a'', msg_raw_text = ''/x a''\<rparr>,
        text_arg = Some ''B'', mode_arg = Some ''reply'', redact_arg = None,
        response_arg = Some \<lparr>msg_id = 2, msg_text = ''A'', msg_raw_text = ''A''\<rparr>,
        extra_args = (Map.empty :: string \<rightharpoonup> unit)\<rparr>]) \<and>
   Context_respond
     (\<lambda>b w call. (Inr \<lparr>msg_id = 3, msg_text = ''B'', msg_raw_text = ''B''\<rparr>, w @ [call]))
     []
     \<lparr>bot_ctx = (), msg = \<lparr>msg_id = 1, msg_text = ''/x a'', msg_raw_text = ''/x a''\<rparr>,
      segments = \<lparr>oid = 0, items = [''/x'', ''a'']\<rparr>, cmd_len = 3, invoker = ''/x'',
      response = Some \<lparr>msg_id = 2, msg_text = ''A'', msg_raw_text = ''A''\<rparr>,
      response_mode = Some ''reply'', input = ''a'', parsed_input = ''a'', args = None\<rparr>
     (Some ''B'') (Some ''edit'') None None True Map.empty
   = (Inr \<lparr>msg_id = 3, msg_text = ''B'', msg_raw_text = ''B''\<rparr> :: unit error + Message,
      \<lparr>bot_ctx = (), msg = \<lparr>msg_id = 1, msg_text = ''/x a'', msg_raw_text = ''/x a''\<rparr>,
       segments = \<lparr>oid = 0, items = [''/x'', ''a'']\<rparr>, cmd_len = 3, invoker = ''/x'',
       response = Some \<lparr>msg_id = 3, msg_text = ''B'', msg_raw_text = ''B''\<rparr>,
       response_mode = Some ''edit'', input = ''a'', parsed_input = ''a'', args = None\<rparr>,
      [\<lparr>target = \<lparr>msg_id = 1, msg_text = ''/x a'', msg_raw_text = ''/x a''\<rparr>,
        text_arg = Some ''B'', mode_arg = Some ''edit'', redact_arg = None,
        response_arg = None,
        extra_args = (Map.empty :: string \<rightharpoonup> unit)\<rparr>]) \<and>
   Context_respond
     (\<lambda>b w call. (Inr \<lparr>msg_id = 3, msg_text = ''B'', msg_raw_text = ''B''\<rparr>, w @ [call]))
     []
     \<lparr>bot_ctx = (), msg = \<lparr>msg_id = 1, msg_text = ''/x a'', msg_raw_text = ''/x a''\<rparr>,
      segments = \<lparr>oid = 0, items = [''/x'', ''a'']\<rparr>, cmd_len = 3, invoker = ''/x'',
      response = Some \<lparr>msg_id = 2, msg_text = ''A'', msg_raw_text = ''A''\<rparr>,
      response_mode = Some ''reply'', input = ''a'', parsed_input = ''a'', args = None\<rparr>
     (Some ''B'') (Some ''reply'') None None True [''response'' \<mapsto> ()]
   = (Inl TypeError :: unit error + Message,
      \<lparr>bot_ctx = (), msg = \<lparr>msg_id = 1, msg_text = ''/x a'', msg_raw_text = ''/x a''\<rparr>,
       segments = \<lparr>oid = 0, items = [''/x'', ''a'']\<rparr>, cmd_len = 3, invoker = ''/x'',
       response = Some \<lparr>msg_id = 2, msg_text = ''A'', msg_raw_text = ''A''\<rparr>,
       response_mode = Some ''reply'', input = ''a'', parsed_input = ''a'', args = None\<rparr>,
      [])"
proof -
  let ?B = "\<lambda>(b :: unit) (w :: unit respond_call list) call.
       (Inr \<lparr>msg_id = 3, msg_text = ''B'', msg_raw_text = ''B''\<rparr> :: unit + Message,
        w @ [call])"
  let ?c = "\<lparr>bot_ctx = (), msg = \<lparr>msg_id = 1, msg_text = ''/x a'', msg_raw_text = ''/x a''\<rparr>,
      segments = \<lparr>oid = 0, items = [''/x'', ''a'']\<rparr>, cmd_len = 3, invoker = ''/x'',
      response = Some \<lparr>msg_id = 2, msg_text = ''A'', msg_raw_text = ''A''\<rparr>,
      response_mode = Some ''reply'', input = ''a'', parsed_input = ''a'', args = None\<rparr>"
  show ?thesis
    using respond_forwards_and_records
            [of Map.empty ?B "[]" ?c "Some ''B''" "Some ''reply''" None None True]
          respond_forwards_and_records
            [of Map.empty ?B "[]" ?c "Some ''B''" "Some ''edit''" None None True]
          respond_forwards_and_records
            [of "[''response'' \<mapsto> ()]" ?B "[]" ?c "Some ''B''" "Some ''reply''" None None True]
    by simp
qed

text \<open>
  C10. On a fresh Context (as the constructor returns it: \<^verbatim>\<open>response\<close> and
  \<^verbatim>\<open>response_mode\<close> both \<^verbatim>\<open>None\<close>) every call of \<^verbatim>\<open>respond\<close> that reaches
  \<^verbatim>\<open>Bot.respond\<close> forwards \<^verbatim>\<open>response=None\<close>, for every mode, \<^verbatim>\<open>None\<close> included,
  and for both values of \<^verbatim>\<open>reuse_response\<close>: with \<^verbatim>\<open>mode=None\<close> and
  \<^verbatim>\<open>reuse_response=True\<close> the modes are equal and the stored response is forwarded,
  which is \<^verbatim>\<open>None\<close>.
\<close>

theorem fresh_context_forwards_None:
  assumes "Context_init b m segs n = Inr c" and "kwargs ''response'' = None"
  shows "response c = None \<and> response_mode c = None \<and>
     Context_respond B w c txt mode redact m' reuse kwargs =
     (case B b w
             \<lparr>target = (case m' of Some x \<Rightarrow> x | None \<Rightarrow> m),
              text_arg = txt, mode_arg = mode, redact_arg = redact,
              response_arg = None,
              extra_args = kwargs\<rparr> of
        (Inl e, w') \<Rightarrow> (Inl (Raised e), c, w')
      | (Inr r, w') \<Rightarrow> (Inr r, c\<lparr>response := Some r, response_mode := mode\<rparr>, w'))"
proof -
  from assms(1) have f: "response c = None" "response_mode c = None" "bot_ctx c = b" "msg c = m"
    by (auto simp: Context_init_def index0_def split: list.splits)
  with assms(2) show ?thesis
    by (cases m') (simp_all add: Context_respond_def)
qed

text \<open>The case the specification asks about: \<^verbatim>\<open>respond(mode=None, reuse_response=True)\<close>.\<close>

theorem fresh_context_forwards_None_witness:
  "Context_respond
     (\<lambda>b w call. (Inr \<lparr>msg_id = 3, msg_text = ''B'', msg_raw_text = ''B''\<rparr>, w @ [call]))
     []
     \<lparr>bot_ctx = (), msg = \<lparr>msg_id = 1, msg_text = ''/x a'', msg_raw_text = ''/x a''\<rparr>,
      segments = \<lparr>oid = 0, items = [''/x'', ''a'']\<rparr>, cmd_len = 3, invoker = ''/x'',
      response = None, response_mode = None, input = ''a'', parsed_input = ''a'',
      args = None\<rparr>
     None None None None True Map.empty
   = (Inr \<lparr>msg_id = 3, msg_text = ''B'', msg_raw_text = ''B''\<rparr> :: unit error + Message,
      \<lparr>bot_ctx = (), msg = \<lparr>msg_id = 1, msg_text = ''/x a'', msg_raw_text = ''/x a''\<rparr>,
       segments = \<lparr>oid = 0, items = [''/x'', ''a'']\<rparr>, cmd_len = 3, invoker = ''/x'',
       response = Some \<lparr>msg_id = 3, msg_text = ''B'', msg_raw_text = ''B''\<rparr>,
       response_mode = None, input = ''a'', parsed_input = ''a'', args = None\<rparr>,
      [\<lparr>target = \<lparr>msg_id = 1, msg_text = ''/x a'', msg_raw_text = ''/x a''\<rparr>,
        text_arg = None, mode_arg = None, redact_arg = None, response_arg = None,
        extra_args = (Map.empty :: string \<rightharpoonup> unit)\<rparr>])"
proof -
  let ?m = "\<lparr>msg_id = 1, msg_text = ''/x a'', msg_raw_text = ''/x a''\<rparr>"
  let ?s = "\<lparr>oid = 0, items = [''/x'', ''a'']\<rparr>"
  let ?c = "\<lparr>bot_ctx = (), msg = ?m, segments = ?s, cmd_len = 3, invoker = ''/x'',
      response = None, response_mode = None, input = ''a'', parsed_input = ''a'',
      args = None\<rparr>"
  let ?B = "\<lambda>(b :: unit) (w :: unit respond_call list) call.
       (Inr \<lparr>msg_id = 3, msg_text = ''B'', msg_raw_text = ''B''\<rparr> :: unit + Message,
        w @ [call])"
  have init: "Context_init () ?m ?s 3 = (Inr ?c :: unit error + unit Context)"
    by (simp add: Context_init_def index0_def slice_from_def)
  have none: "(Map.empty :: string \<rightharpoonup> unit) ''response'' = None" by simp
  show ?thesis
    using fresh_context_forwards_None [OF init none, of ?B "[]" None None None None True]
    by simp
qed

subsection \<open>respond_multi\<close>

text \<open>
  C2. \<^verbatim>\<open>respond_multi\<close> on a Context whose \<^verbatim>\<open>response\<close> is \<^verbatim>\<open>None\<close> is the plain
  call of \<^verbatim>\<open>respond\<close> with the same arguments. On a Context whose \<^verbatim>\<open>response\<close> is
  \<open>r\<close> it is the call of \<^verbatim>\<open>respond\<close> with the caller's keywords, where each of
  \<^verbatim>\<open>mode\<close>, \<^verbatim>\<open>msg\<close>, \<^verbatim>\<open>reuse_response\<close> that the caller left out is
  \<^verbatim>\<open>"reply"\<close>, \<open>r\<close>, \<^verbatim>\<open>False\<close> and each one the caller gave keeps the caller's
  value. With text alone, the second part sends a fresh reply to \<open>r\<close>.
\<close>

theorem respond_multi_defaults:
  "Context_respond_multi B w c pos kw =
     (case response c of
        None \<Rightarrow> call_respond B w c pos kw
      | Some r \<Rightarrow>
          call_respond B w c pos
            (kw\<lparr>kw_mode := Some (case kw_mode kw of None \<Rightarrow> Some ''reply'' | Some v \<Rightarrow> v),
                kw_msg := Some (case kw_msg kw of None \<Rightarrow> Some r | Some v \<Rightarrow> v),
                kw_reuse_response :=
                  Some (case kw_reuse_response kw of None \<Rightarrow> False | Some v \<Rightarrow> v)\<rparr>)) \<and>
   Context_respond_multi B w (c\<lparr>response := Some r\<rparr>) [t]
     \<lparr>kw_text = None, kw_mode = None, kw_redact = None, kw_msg = None,
      kw_reuse_response = None, kw_rest = Map.empty\<rparr> =
     (case B (bot_ctx c) w
             \<lparr>target = r, text_arg = t, mode_arg = Some ''reply'', redact_arg = None,
              response_arg = None, extra_args = Map.empty\<rparr> of
        (Inl e, w') \<Rightarrow> (Inl (Raised e), c\<lparr>response := Some r\<rparr>, w')
      | (Inr r', w') \<Rightarrow>
          (Inr r', c\<lparr>response := Some r', response_mode := Some ''reply''\<rparr>, w'))"
proof
  show "Context_respond_multi B w c pos kw =
     (case response c of
        None \<Rightarrow> call_respond B w c pos kw
      | Some r \<Rightarrow>
          call_respond B w c pos
            (kw\<lparr>kw_mode := Some (case kw_mode kw of None \<Rightarrow> Some ''reply'' | Some v \<Rightarrow> v),
                kw_msg := Some (case kw_msg kw of None \<Rightarrow> Some r | Some v \<Rightarrow> v),
                kw_reuse_response :=
                  Some (case kw_reuse_response kw of None \<Rightarrow> False | Some v \<Rightarrow> v)\<rparr>))"
    by (cases kw)
       (simp add: Context_respond_multi_def setdefault_mode_def setdefault_msg_def
          setdefault_reuse_response_def split: option.splits)
next
  show "Context_respond_multi B w (c\<lparr>response := Some r\<rparr>) [t]
     \<lparr>kw_text = None, kw_mode = None, kw_redact = None, kw_msg = None,
      kw_reuse_response = None, kw_rest = Map.empty\<rparr> =
     (case B (bot_ctx c) w
             \<lparr>target = r, text_arg = t, mode_arg = Some ''reply'', redact_arg = None,
              response_arg = None, extra_args = Map.empty\<rparr> of
        (Inl e, w') \<Rightarrow> (Inl (Raised e), c\<lparr>response := Some r\<rparr>, w')
      | (Inr r', w') \<Rightarrow>
          (Inr r', c\<lparr>response := Some r', response_mode := Some ''reply''\<rparr>, w'))"
    by (simp add: Context_respond_multi_def setdefault_mode_def setdefault_msg_def
          setdefault_reuse_response_def call_respond_def Context_respond_def
          split: prod.splits sum.splits)
qed

text \<open>
  Two calls in a row with the text alone, against a \<^verbatim>\<open>Bot.respond\<close> that logs its
  calls and numbers the messages it returns: the first call targets the triggering
  message with no mode; the second targets the first response with mode \<^verbatim>\<open>reply\<close>
  and forwards no response to edit.
\<close>

theorem respond_multi_defaults_witness:
  "Context_respond_multi
     (\<lambda>b w call. (Inr \<lparr>msg_id = 10 + int (length w), msg_text = ''sent'',
                          msg_raw_text = ''sent''\<rparr>, w @ [call]))
     []
     \<lparr>bot_ctx = (), msg = \<lparr>msg_id = 1, msg_text = ''/x a'', msg_raw_text = ''/x a''\<rparr>,
      segments = \<lparr>oid = 0, items = [''/x'', ''a'']\<rparr>, cmd_len = 3, invoker = ''/x'',
      response = None, response_mode = None, input = ''a'', parsed_input = ''a'', args = None\<rparr>
     [Some ''one'']
     \<lparr>kw_text = None, kw_mode = None, kw_redact = None, kw_msg = None,
      kw_reuse_response = None, kw_rest = Map.empty\<rparr>
   = (Inr \<lparr>msg_id = 10, msg_text = ''sent'', msg_raw_text = ''sent''\<rparr> :: unit error + Message,
      \<lparr>bot_ctx = (), msg = \<lparr>msg_id = 1, msg_text = ''/x a'', msg_raw_text = ''/x a''\<rparr>,
       segments = \<lparr>oid = 0, items = [''/x'', ''a'']\<rparr>, cmd_len = 3, invoker = ''/x'',
       response = Some \<lparr>msg_id = 10, msg_text = ''sent'', msg_raw_text = ''sent''\<rparr>,
       response_mode = None, input = ''a'', parsed_input = ''a'', args = None\<rparr>,
      [\<lparr>target = \<lparr>msg_id = 1, msg_text = ''/x a'', msg_raw_text = ''/x a''\<rparr>,
        text_arg = Some ''one'', mode_arg = None, redact_arg = None, response_arg = None,
        extra_args = (Map.empty :: string \<rightharpoonup> unit)\<rparr>]) \<and>
   Context_respond_multi
     (\<lambda>b w call. (Inr \<lparr>msg_id = 10 + int (length w), msg_text = ''sent'',
                          msg_raw_text = ''sent''\<rparr>, w @ [call]))
     [\<lparr>target = \<lparr>msg_id = 1, msg_text = ''/x a'', msg_raw_text = ''/x a''\<rparr>,
       text_arg = Some ''one'', mode_arg = None, redact_arg = None, response_arg = None,
       extra_args = Map.empty\<rparr>]
     \<lparr>bot_ctx = (), msg = \<lparr>msg_id = 1, msg_text = ''/x a'', msg_raw_text = ''/x a''\<rparr>,
      segments = \<lparr>oid = 0, items = [''/x'', ''a'']\<rparr>, cmd_len = 3, invoker = ''/x'',
      response = Some \<lparr>msg_id = 10, msg_text = ''sent'', msg_raw_text = ''sent''\<rparr>,
      response_mode = None, input = ''a'', parsed_input = ''a'', args = None\<rparr>
     [Some ''two'']
     \<lparr>kw_text = None, kw_mode = None, kw_redact = None, kw_msg = None,
      kw_reuse_response = None, kw_rest = Map.empty\<rparr>
   = (Inr \<lparr>msg_id = 11, msg_text = ''sent'', msg_raw_text = ''sent''\<rparr> :: unit error + Message,
      \<lparr>bot_ctx = (), msg = \<lparr>msg_id = 1, msg_text = ''/x a'', msg_raw_text = ''/x a''\<rparr>,
       segments = \<lparr>oid = 0, items = [''/x'', ''a'']\<rparr>, cmd_len = 3, invoker = ''/x'',
       response = Some \<lparr>msg_id = 11, msg_text = ''sent'', msg_raw_text = ''sent''\<rparr>,
       response_mode = Some ''reply'', input = ''a'', parsed_input = ''a'', args = None\<rparr>,
      [\<lparr>target = \<lparr>msg_id = 1, msg_text = ''/x a'', msg_raw_text = ''/x a''\<rparr>,
        text_arg = Some ''one'', mode_arg = None, redact_arg = None, response_arg = None,
        extra_args = (Map.empty :: string \<rightharpoonup> unit)\<rparr>,
       \<lparr>target = \<lparr>msg_id = 10, msg_text = ''sent'', msg_raw_text = ''sent''\<rparr>,
        text_arg = Some ''two'', mode_arg = Some ''reply'', redact_arg = None,
        response_arg = None, extra_args = Map.empty\<rparr>])"
proof -
  let ?B = "\<lambda>(b :: unit) (w :: unit respond_call list) call.
       (Inr \<lparr>msg_id = 10 + int (length w), msg_text = ''sent'', msg_raw_text = ''sent''\<rparr>
          :: unit + Message, w @ [call])"
  let ?m = "\<lparr>msg_id = 1, msg_text = ''/x a'', msg_raw_text = ''/x a''\<rparr>"
  let ?c0 = "\<lparr>bot_ctx = (), msg = ?m,
      segments = \<lparr>oid = 0, items = [''/x'', ''a'']\<rparr>, cmd_len = 3, invoker = ''/x'',
      response = None, response_mode = None, input = ''a'', parsed_input = ''a'', args = None\<rparr>"
  let ?kw = "\<lparr>kw_text = None, kw_mode = None, kw_redact = None, kw_msg = None,
      kw_reuse_response = None, kw_rest = (Map.empty :: string \<rightharpoonup> unit)\<rparr>"
  let ?call1 = "\<lparr>target = ?m, text_arg = Some ''one'', mode_arg = None, redact_arg = None,
      response_arg = None, extra_args = (Map.empty :: string \<rightharpoonup> unit)\<rparr>"
  let ?r1 = "\<lparr>msg_id = 10, msg_text = ''sent'', msg_raw_text = ''sent''\<rparr>"
  show ?thesis
    using respond_multi_defaults [of ?B "[]" ?c0 "[Some ''one'']" ?kw]
          respond_multi_defaults
            [of ?B "[?call1]" "?c0\<lparr>response := Some ?r1\<rparr>" "[Some ''two'']" ?kw]
    by (simp add: call_respond_def Context_respond_def)
qed

subsection \<open>The metadata decorators\<close>

lemma setattr_call [simp]: "obj_call (setattr h r nm v g) = obj_call (h g)"
  by (simp add: setattr_def)

lemma setattr_other [simp]: "g \<noteq> r \<Longrightarrow> setattr h r nm v g = h g"
  by (simp add: setattr_def)

lemma setattr_dict:
  "obj_dict (setattr h r nm v g) = (if g = r then (obj_dict (h g))(nm \<mapsto> v) else obj_dict (h g))"
  by (simp add: setattr_def)

lemma setattr_overwrite: "setattr (setattr h r nm v1) r nm v2 = setattr h r nm v2"
  by (simp add: setattr_def)

lemma setattr_commute:
  "nm1 \<noteq> nm2 \<Longrightarrow>
   setattr (setattr h r nm1 v1) r nm2 v2 = setattr (setattr h r nm2 v2) r nm1 v1"
  by (simp add: setattr_def fun_upd_twist)

lemma getattr_setattr:
  "getattr (setattr h r nm v) r nm' d = (if nm' = nm then v else getattr h r nm' d)"
  by (simp add: getattr_def setattr_def)

lemma apply_tag_ref: "snd (apply_tag t h f) = f"
  by (cases t)
     (simp_all add: desc_tag_def usage_tag_def alias_tag_def desc_decorator_def
        usage_decorator_def alias_decorator_def)

lemma apply_tag_call: "obj_call (fst (apply_tag t h f) g) = obj_call (h g)"
  by (cases t)
     (simp_all add: desc_tag_def usage_tag_def alias_tag_def desc_decorator_def
        usage_decorator_def alias_decorator_def)

lemma apply_tag_other: "g \<noteq> f \<Longrightarrow> fst (apply_tag t h f) g = h g"
  by (cases t)
     (simp_all add: desc_tag_def usage_tag_def alias_tag_def desc_decorator_def
        usage_decorator_def alias_decorator_def)

lemma apply_tags_Cons:
  "apply_tags (t # ts) h f = apply_tags ts (fst (apply_tag t h f)) f"
  using apply_tag_ref [of t h f] by (cases "apply_tag t h f") simp

lemma apply_tags_ref: "snd (apply_tags ts h f) = f"
  by (induction ts arbitrary: h) (simp_all add: apply_tags_Cons del: apply_tags.simps(2))

lemma apply_tags_call: "obj_call (fst (apply_tags ts h f) g) = obj_call (h g)"
  by (induction ts arbitrary: h)
     (simp_all add: apply_tags_Cons apply_tag_call del: apply_tags.simps(2))

lemma apply_tags_other: "g \<noteq> f \<Longrightarrow> fst (apply_tags ts h f) g = h g"
  by (induction ts arbitrary: h)
     (simp_all add: apply_tags_Cons apply_tag_other del: apply_tags.simps(2))

lemma desc_twice: "desc_tag d2 (fst (desc_tag d1 h f)) f = desc_tag d2 h f"
  by (simp add: desc_tag_def desc_decorator_def setattr_overwrite)

lemma alias_twice: "alias_tag a2 (fst (alias_tag a1 h f)) f = alias_tag a2 h f"
  by (simp add: alias_tag_def alias_decorator_def setattr_overwrite)

lemma usage_twice:
  "usage_tag u2 o2 r2 (fst (usage_tag u1 o1 r1 h f)) f = usage_tag u2 o2 r2 h f"
  by (simp add: usage_tag_def usage_decorator_def setattr_def fun_upd_twist)

lemma tags_commute:
  "apply_tags [Desc d, Usage u ou ru] h f = apply_tags [Usage u ou ru, Desc d] h f"
  "apply_tags [Desc d, Alias als] h f = apply_tags [Alias als, Desc d] h f"
  "apply_tags [Usage u ou ru, Alias als] h f = apply_tags [Alias als, Usage u ou ru] h f"
  by (simp_all add: desc_tag_def usage_tag_def alias_tag_def desc_decorator_def
        usage_decorator_def alias_decorator_def setattr_def fun_upd_twist)

lemma tags_read_back:
  "getattr (fst (desc_tag d h f)) f ''_cmd_description'' x = AStr d"
  "getattr (fst (usage_tag u ou ru h f)) f ''_cmd_usage'' x = AStr u"
  "getattr (fst (usage_tag u ou ru h f)) f ''_cmd_usage_optional'' x =
     ABool (case ou of Some b \<Rightarrow> b | None \<Rightarrow> False)"
  "getattr (fst (usage_tag u ou ru h f)) f ''_cmd_usage_reply'' x =
     ABool (case ru of Some b \<Rightarrow> b | None \<Rightarrow> False)"
  "getattr (fst (alias_tag als h f)) f ''_cmd_aliases'' x = ATuple als"
  by (simp_all add: desc_tag_def usage_tag_def alias_tag_def desc_decorator_def
        usage_decorator_def alias_decorator_def getattr_setattr)

text \<open>
  C8. For every function object and every sequence of tag applications, in any
  order: what comes back is the reference that went in (the same object, no wrapper),
  and what calling any object does is what it was before, so the tagged function
  behaves as \<open>f\<close> when called. Each tag's value can be read back from the object with
  \<^verbatim>\<open>getattr\<close>. A tag applied on top of the same tag leaves the heap that the second
  application alone would leave: the later value replaces the earlier one, and
  nothing raises. Two different tags leave the same heap in either order.
\<close>

theorem tags_keep_function:
  "snd (apply_tags ts h f) = f \<and>
   obj_call (fst (apply_tags ts h f) g) = obj_call (h g) \<and>
   getattr (fst (desc_tag d h f)) f ''_cmd_description'' x = AStr d \<and>
   getattr (fst (usage_tag u ou ru h f)) f ''_cmd_usage'' x = AStr u \<and>
   getattr (fst (usage_tag u ou ru h f)) f ''_cmd_usage_optional'' x =
     ABool (case ou of Some b \<Rightarrow> b | None \<Rightarrow> False) \<and>
   getattr (fst (usage_tag u ou ru h f)) f ''_cmd_usage_reply'' x =
     ABool (case ru of Some b \<Rightarrow> b | None \<Rightarrow> False) \<and>
   getattr (fst (alias_tag als h f)) f ''_cmd_aliases'' x = ATuple als \<and>
   desc_tag d2 (fst (desc_tag d h f)) f = desc_tag d2 h f \<and>
   usage_tag u2 o2 r2 (fst (usage_tag u ou ru h f)) f = usage_tag u2 o2 r2 h f \<and>
   alias_tag a2 (fst (alias_tag als h f)) f = alias_tag a2 h f \<and>
   apply_tags [Desc d, Usage u ou ru] h f = apply_tags [Usage u ou ru, Desc d] h f \<and>
   apply_tags [Desc d, Alias als] h f = apply_tags [Alias als, Desc d] h f \<and>
   apply_tags [Usage u ou ru, Alias als] h f = apply_tags [Alias als, Usage u ou ru] h f"
  by (intro conjI)
     (simp_all only: apply_tags_ref apply_tags_call tags_read_back desc_twice usage_twice
        alias_twice tags_commute)

text \<open>
  Three tags stacked on an untagged function at reference 0, \<^verbatim>\<open>desc\<close> twice: the
  reference comes back, the behaviour \<open>True\<close> stays and the second description wins.
\<close>

theorem tags_keep_function_witness:
  "snd (apply_tags [Desc ''old'', Alias [''p''], Desc ''new'']
          (\<lambda>r. \<lparr>obj_call = Some True, obj_dict = Map.empty\<rparr>) 0) = 0 \<and>
   obj_call (fst (apply_tags [Desc ''old'', Alias [''p''], Desc ''new'']
          (\<lambda>r. \<lparr>obj_call = Some True, obj_dict = Map.empty\<rparr>) 0) 0) = Some True \<and>
   obj_dict (fst (apply_tags [Desc ''old'', Alias [''p''], Desc ''new'']
          (\<lambda>r. \<lparr>obj_call = Some True, obj_dict = Map.empty\<rparr>) 0) 0) =
     [''_cmd_aliases'' \<mapsto> ATuple [''p''], ''_cmd_description'' \<mapsto> AStr ''new'']"
proof -
  let ?h = "\<lambda>r :: nat. \<lparr>obj_call = Some True, obj_dict = Map.empty\<rparr>"
  let ?ts = "[Desc ''old'', Alias [''p''], Desc ''new'']"
  have "snd (apply_tags ?ts ?h 0) = 0" and "obj_call (fst (apply_tags ?ts ?h 0) 0) = Some True"
    using tags_keep_function [of ?ts ?h 0 0] by simp_all
  moreover have "obj_dict (fst (apply_tags ?ts ?h 0) 0) =
     [''_cmd_aliases'' \<mapsto> ATuple [''p''], ''_cmd_description'' \<mapsto> AStr ''new'']"
    by (simp add: desc_tag_def alias_tag_def desc_decorator_def alias_decorator_def
          setattr_def fun_upd_twist)
  ultimately show ?thesis by simp
qed

subsection \<open>Construction of a Command\<close>

text \<open>
  C9. \<^verbatim>\<open>Command(name, module, f)\<close> never raises. Each metadata field is the value of
  the attribute that the tag stored on \<open>f\<close>, or the default when \<open>f\<close> has no such
  attribute. On an \<open>f\<close> with none of the five attributes the fields are \<^verbatim>\<open>None\<close>,
  \<^verbatim>\<open>None\<close>, \<^verbatim>\<open>False\<close>, \<^verbatim>\<open>False\<close> and the empty list; on an \<open>f\<close> tagged with
  \<^verbatim>\<open>desc\<close>, \<^verbatim>\<open>usage\<close> and \<^verbatim>\<open>alias\<close> they are the tags' values.
\<close>

theorem Command_init_metadata:
  "(Command_init h nm md f :: 'e error + 'm Command) =
     Inr \<lparr>name = nm,
          desc = (case obj_dict (h f) ''_cmd_description'' of Some v \<Rightarrow> v | None \<Rightarrow> ANone),
          usage = (case obj_dict (h f) ''_cmd_usage'' of Some v \<Rightarrow> v | None \<Rightarrow> ANone),
          usage_optional =
            (case obj_dict (h f) ''_cmd_usage_optional'' of Some v \<Rightarrow> v | None \<Rightarrow> ABool False),
          usage_reply =
            (case obj_dict (h f) ''_cmd_usage_reply'' of Some v \<Rightarrow> v | None \<Rightarrow> ABool False),
          aliases = (case obj_dict (h f) ''_cmd_aliases'' of Some v \<Rightarrow> v | None \<Rightarrow> AList []),
          module = md, func = f\<rparr> \<and>
   (obj_dict (h f) ''_cmd_description'' = None \<and> obj_dict (h f) ''_cmd_usage'' = None \<and>
    obj_dict (h f) ''_cmd_usage_optional'' = None \<and> obj_dict (h f) ''_cmd_usage_reply'' = None \<and>
    obj_dict (h f) ''_cmd_aliases'' = None \<longrightarrow>
    (Command_init h nm md f :: 'e error + 'm Command) =
      Inr \<lparr>name = nm, desc = ANone, usage = ANone, usage_optional = ABool False,
           usage_reply = ABool False, aliases = AList [], module = md, func = f\<rparr>) \<and>
   (Command_init (fst (apply_tags [Desc d, Usage u ou ru, Alias als] h f)) nm md f
      :: 'e error + 'm Command) =
     Inr \<lparr>name = nm, desc = AStr d, usage = AStr u,
          usage_optional = ABool (case ou of Some b \<Rightarrow> b | None \<Rightarrow> False),
          usage_reply = ABool (case ru of Some b \<Rightarrow> b | None \<Rightarrow> False),
          aliases = ATuple als, module = md, func = f\<rparr>"
  by (simp add: Command_init_def getattr_def desc_tag_def usage_tag_def alias_tag_def
        desc_decorator_def usage_decorator_def alias_decorator_def setattr_def)

text \<open>An untagged function at reference 0, and the same function once tagged.\<close>

theorem Command_init_metadata_witness:
  "Command_init (\<lambda>r. \<lparr>obj_call = Some True, obj_dict = Map.empty\<rparr>) ''ping'' ''core'' 0 =
     (Inr \<lparr>name = ''ping'', desc = ANone, usage = ANone, usage_optional = ABool False,
           usage_reply = ABool False, aliases = AList [], module = ''core'', func = 0\<rparr>
        :: unit error + string Command) \<and>
   Command_init
     (fst (apply_tags [Desc ''Pong'', Usage ''[text]'' (Some True) None, Alias [''p'']]
             (\<lambda>r. \<lparr>obj_call = Some True, obj_dict = Map.empty\<rparr>) 0))
     ''ping'' ''core'' 0 =
     (Inr \<lparr>name = ''ping'', desc = AStr ''Pong'', usage = AStr ''[text]'',
           usage_optional = ABool True, usage_reply = ABool False, aliases = ATuple [''p''],
           module = ''core'', func = 0\<rparr>
        :: unit error + string Command)"
  using Command_init_metadata
          [where ?'e = unit,
           of "\<lambda>r. \<lparr>obj_call = Some True, obj_dict = Map.empty\<rparr>" "''ping''" "''core''" 0
              "''Pong''" "''[text]''" "Some True" None "[''p'']"]
  by (simp del: apply_tags.simps)

text \<open>
  C4, as the code has it. \<^verbatim>\<open>Command(name, module, func)\<close> never fails, for a
  callable \<^verbatim>\<open>func\<close> and for one that is not callable: the constructor does not test
  \<^verbatim>\<open>func\<close>. It reads the heap and writes nothing, so it has no side effect.
\<close>

theorem Command_init_never_fails:
  "\<exists>c. Command_init h nm md f = Inr c \<and> name c = nm \<and> module c = md \<and> func c = f"
  by (simp add: Command_init_def)

text \<open>
  An object that is not callable, at reference 0: its Command is constructed, with
  the default metadata.
\<close>

theorem Command_init_noncallable:
  "obj_call ((\<lambda>r. \<lparr>obj_call = (None :: bool option), obj_dict = Map.empty\<rparr>) (0 :: nat)) = None \<and>
   Command_init (\<lambda>r. \<lparr>obj_call = (None :: bool option), obj_dict = Map.empty\<rparr>)
      ''ping'' ''core'' 0 =
     (Inr \<lparr>name = ''ping'', desc = ANone, usage = ANone, usage_optional = ABool False,
           usage_reply = ABool False, aliases = AList [], module = ''core'', func = 0\<rparr>
        :: unit error + string Command)"
  by (simp add: Command_init_def getattr_def)

end
